theory Spec2Isabelle
  imports Complex_Main "HOL-Library.AList"
begin

section \<open>A shallow embedding of the game client (src/game.js)\<close>

text \<open>
  The class \<open>GameClient\<close> is one mutable object. Its fields become a record, every method
  becomes a function from the record to the updated record, and the effects on the outside
  world (messages handed to the socket, timers scheduled, images requested from the canvas)
  become values the functions return or log in the record.

  Numbers are IEEE doubles: the conversions and the drawing code add and subtract with
  rounding to the nearest double, and \<open>NaN\<close> is what JavaScript produces when an operand is
  \<open>undefined\<close>.
\<close>

subsection \<open>Numbers\<close>

text \<open>
  A JavaScript number is an IEEE 754 double: \<open>NaN\<close>, an infinity, or a finite value, kept here
  as the real number it denotes (the two signed zeros are one value; they are equal under
  \<open>===\<close> and under every operation used here).
\<close>

datatype jsnum = NaN | PosInf | NegInf | Num real

text \<open>\<open>ToNumber\<close> of a field that holds a number or is absent (\<open>undefined\<close>).\<close>

fun toNumber :: "real option \<Rightarrow> jsnum" where
  "toNumber None = NaN"
| "toNumber (Some r) = Num r"

text \<open>
  Rounding to the nearest double, ties to even. \<open>binade r\<close> is the exponent \<open>e\<close> with
  \<open>2^e \<le> |r| < 2^(e+1)\<close>; a double has 53 significant bits, so its last bit weighs
  \<open>2^(e - 52)\<close>, and never less than \<open>2^(-1074)\<close> (subnormal numbers). \<open>fl r\<close> is the multiple of
  that weight nearest to \<open>r\<close>, computed as if the exponent had no upper limit;
  \<open>round_to_double\<close> then gives an infinity when the rounded magnitude reaches \<open>2^1024\<close>.
\<close>

definition binade :: "real \<Rightarrow> int" where
  "binade r = \<lfloor>log 2 \<bar>r\<bar>\<rfloor>"

definition ulp :: "real \<Rightarrow> real" where
  "ulp r = 2 powr of_int (max (binade r) (- 1022) - 52)"

definition round_half_even :: "real \<Rightarrow> int" where
  "round_half_even q =
     (let n = \<lfloor>q\<rfloor>; d = q - of_int n
      in if d < 1 / 2 then n else if 1 / 2 < d then n + 1 else if even n then n else n + 1)"

definition fl :: "real \<Rightarrow> real" where
  "fl r = (if r = 0 then 0 else of_int (round_half_even (r / ulp r)) * ulp r)"

definition round_to_double :: "real \<Rightarrow> jsnum" where
  "round_to_double r =
     (if 2 ^ 1024 \<le> fl r then PosInf
      else if fl r \<le> - (2 ^ 1024) then NegInf
      else Num (fl r))"

text \<open>The reals that are values of finite doubles.\<close>

definition representable :: "real \<Rightarrow> bool" where
  "representable r = (fl r = r \<and> \<bar>r\<bar> < 2 ^ 1024)"


fun js_sub :: "jsnum \<Rightarrow> jsnum \<Rightarrow> jsnum" where
  "js_sub (Num a) (Num b) = round_to_double (a - b)"
| "js_sub NaN _ = NaN"
| "js_sub _ NaN = NaN"
| "js_sub PosInf PosInf = NaN"
| "js_sub NegInf NegInf = NaN"
| "js_sub PosInf _ = PosInf"
| "js_sub _ PosInf = NegInf"
| "js_sub NegInf _ = NegInf"
| "js_sub _ NegInf = PosInf"

fun js_neg :: "jsnum \<Rightarrow> jsnum" where
  "js_neg (Num a) = Num (- a)"
| "js_neg PosInf = NegInf"
| "js_neg NegInf = PosInf"
| "js_neg NaN = NaN"

text \<open>
  The difference without the rounding step. The two recentring functions below take
  \<open>myPlayer.x - centerX\<close> this way: for a position that is a double and a canvas size below
  \<open>2^32\<close>, the rounded difference either is the exact one or falls outside the clamp interval
  on the same side, so the viewport offset is the same (lemma \<open>recenter_rounding_absorbed\<close>).
\<close>

fun js_sub_exact :: "jsnum \<Rightarrow> jsnum \<Rightarrow> jsnum" where
  "js_sub_exact (Num a) (Num b) = Num (a - b)"
| "js_sub_exact a b = js_sub a b"

text \<open>\<open>Math.min\<close> and \<open>Math.max\<close> return \<open>NaN\<close> as soon as one argument is \<open>NaN\<close>.\<close>

fun Math_min :: "jsnum \<Rightarrow> jsnum \<Rightarrow> jsnum" where
  "Math_min (Num a) (Num b) = Num (min a b)"
| "Math_min NaN _ = NaN"
| "Math_min _ NaN = NaN"
| "Math_min NegInf _ = NegInf"
| "Math_min _ NegInf = NegInf"
| "Math_min PosInf b = b"
| "Math_min a PosInf = a"

fun Math_max :: "jsnum \<Rightarrow> jsnum \<Rightarrow> jsnum" where
  "Math_max (Num a) (Num b) = Num (max a b)"
| "Math_max NaN _ = NaN"
| "Math_max _ NaN = NaN"
| "Math_max PosInf _ = PosInf"
| "Math_max _ PosInf = PosInf"
| "Math_max NegInf b = b"
| "Math_max a NegInf = a"

text \<open>Comparisons with \<open>NaN\<close> are false.\<close>

fun js_ge :: "jsnum \<Rightarrow> jsnum \<Rightarrow> bool" where
  "js_ge (Num a) (Num b) = (a \<ge> b)"
| "js_ge NaN _ = False"
| "js_ge _ NaN = False"
| "js_ge PosInf _ = True"
| "js_ge _ NegInf = True"
| "js_ge (Num a) PosInf = False"
| "js_ge NegInf (Num b) = False"
| "js_ge NegInf PosInf = False"

fun js_le :: "jsnum \<Rightarrow> jsnum \<Rightarrow> bool" where
  "js_le (Num a) (Num b) = (a \<le> b)"
| "js_le NaN _ = False"
| "js_le _ NaN = False"
| "js_le NegInf _ = True"
| "js_le _ PosInf = True"
| "js_le (Num a) NegInf = False"
| "js_le PosInf (Num b) = False"
| "js_le PosInf NegInf = False"

subsection \<open>Data model\<close>

text \<open>
  A player object as the server sends it. A \<open>players_moved\<close> patch carries only some of the
  fields, so every field may be absent (\<open>None\<close>, read as \<open>undefined\<close>).
\<close>

record player =
  p_id :: "string option"
  p_username :: "string option"
  p_x :: "real option"
  p_y :: "real option"
  p_facing :: "string option"
  p_avatar :: "string option"
  p_animationFrame :: "int option"

text \<open>
  An avatar: its name and \<open>frames\<close>, the object holding under each facing it has the array
  of frames (image data).
\<close>

record avatar =
  a_name :: string
  a_frames :: "(string \<times> string list) list"

datatype readyState = CONNECTING | OPEN | CLOSING | CLOSED

datatype message = JoinGame string | Move string | Stop

datatype js_error = TypeError

text \<open>
  What \<open>drawPlayer\<close> hands to the canvas once the frame image has loaded: the image source,
  the arguments of \<open>drawImage\<close>, whether the context is mirrored, and the label.
\<close>

record sprite =
  src :: string
  dx :: jsnum
  dy :: jsnum
  mirrored :: bool
  label :: "string option"
  label_x :: jsnum
  label_y :: jsnum

datatype canvas_op =
    ClearRect nat nat
  | DrawWorld jsnum jsnum
  | DrawSprite sprite

text \<open>
  The fields of \<open>GameClient\<close>. Objects used as dictionaries (\<open>players\<close>, \<open>avatars\<close>) are
  association lists in insertion order, the order \<open>Object.keys\<close> and \<open>Object.values\<close> give
  for keys that are not array indices. \<open>keysPressed\<close> only ever maps a key to \<open>true\<close>, so
  it is the list of its keys in insertion order. \<open>sent\<close> logs the messages given to
  \<open>ws.send\<close> and \<open>timers\<close> the delays given to \<open>setTimeout\<close>, oldest first.
\<close>

record game_client =
  canvas_width :: nat
  canvas_height :: nat
  worldImage :: bool
  worldWidth :: real
  worldHeight :: real
  myPlayerId :: "string option"
  players :: "(string \<times> player) list"
  avatars :: "(string \<times> avatar) list"
  viewportX :: jsnum
  viewportY :: jsnum
  keysPressed :: "string list"
  isMoving :: bool
  currentDirection :: "string option"
  movementLoopId :: bool
  ws :: "readyState option"
  reconnectAttempts :: nat
  maxReconnectAttempts :: nat
  sent :: "message list"
  timers :: "nat list"

text \<open>The state the constructor builds before \<open>init\<close>, for a canvas of the given size.\<close>

definition constructor :: "nat \<Rightarrow> nat \<Rightarrow> game_client" where
  "constructor w h =
     \<lparr> canvas_width = w, canvas_height = h, worldImage = False,
       worldWidth = 2048, worldHeight = 2048,
       myPlayerId = None, players = [], avatars = [],
       viewportX = Num 0, viewportY = Num 0,
       keysPressed = [], isMoving = False, currentDirection = None,
       movementLoopId = False,
       ws = None, reconnectAttempts = 0, maxReconnectAttempts = 5,
       sent = [], timers = [] \<rparr>"

text \<open>The property key an optional string denotes: \<open>undefined\<close> is the key "undefined".\<close>

fun prop_key :: "string option \<Rightarrow> string" where
  "prop_key None = ''undefined''"
| "prop_key (Some k) = k"

subsection \<open>Viewport management\<close>

text \<open>
  \<open>!this.myPlayerId || !this.players[this.myPlayerId]\<close>: the id is \<open>null\<close> or the empty
  string, or no player is stored under it.
\<close>

definition myPlayer_of :: "game_client \<Rightarrow> player option" where
  "myPlayer_of s =
     (case myPlayerId s of
        None \<Rightarrow> None
      | Some i \<Rightarrow> if i = [] then None else map_of (players s) i)"

definition centerViewportOnMyAvatar :: "game_client \<Rightarrow> game_client" where
  "centerViewportOnMyAvatar s =
     (case myPlayer_of s of
        None \<Rightarrow> s
      | Some myPlayer \<Rightarrow>
          let centerX = Num (real (canvas_width s) / 2);
              centerY = Num (real (canvas_height s) / 2);
              s1 = s\<lparr>viewportX := js_sub_exact (toNumber (p_x myPlayer)) centerX\<rparr>;
              s2 = s1\<lparr>viewportY := js_sub_exact (toNumber (p_y myPlayer)) centerY\<rparr>;
              s3 = s2\<lparr>viewportX := Math_max (Num 0)
                     (Math_min (viewportX s2) (Num (worldWidth s2 - real (canvas_width s2))))\<rparr>
          in s3\<lparr>viewportY := Math_max (Num 0)
                     (Math_min (viewportY s3) (Num (worldHeight s3 - real (canvas_height s3))))\<rparr>)"

definition updateViewportForMyAvatar :: "game_client \<Rightarrow> game_client" where
  "updateViewportForMyAvatar s =
     (case myPlayer_of s of
        None \<Rightarrow> s
      | Some myPlayer \<Rightarrow>
          let centerX = Num (real (canvas_width s) / 2);
              centerY = Num (real (canvas_height s) / 2);
              desiredViewportX = js_sub_exact (toNumber (p_x myPlayer)) centerX;
              desiredViewportY = js_sub_exact (toNumber (p_y myPlayer)) centerY;
              s1 = s\<lparr>viewportX := Math_max (Num 0)
                     (Math_min desiredViewportX (Num (worldWidth s - real (canvas_width s))))\<rparr>
          in s1\<lparr>viewportY := Math_max (Num 0)
                     (Math_min desiredViewportY (Num (worldHeight s1 - real (canvas_height s1))))\<rparr>)"

text \<open>
  The specification's wording of the clamp, for comparison with the code's
  \<open>Math.max(0, Math.min(v, hi))\<close>: \<open>v\<close> clamped into \<open>[lo, hi]\<close>, where the lower bound wins
  when the interval is empty.
\<close>

definition clamp_into :: "real \<Rightarrow> real \<Rightarrow> real \<Rightarrow> real" where
  "clamp_into lo hi v = (if hi < lo then lo else if v < lo then lo else if hi < v then hi else v)"

subsection \<open>Coordinate conversion\<close>

definition worldToScreen :: "game_client \<Rightarrow> jsnum \<Rightarrow> jsnum \<Rightarrow> jsnum \<times> jsnum" where
  "worldToScreen s worldX worldY = (js_sub worldX (viewportX s), js_sub worldY (viewportY s))"


definition isPositionVisible :: "game_client \<Rightarrow> jsnum \<Rightarrow> jsnum \<Rightarrow> bool" where
  "isPositionVisible s worldX worldY =
     (let screen = worldToScreen s worldX worldY
      in js_ge (fst screen) (Num (- 50)) \<and> js_le (fst screen) (Num (real (canvas_width s) + 50)) \<and>
         js_ge (snd screen) (Num (- 50)) \<and> js_le (snd screen) (Num (real (canvas_height s) + 50)))"

subsection \<open>Drawing\<close>

definition drawWorld :: "game_client \<Rightarrow> canvas_op list" where
  "drawWorld s =
     (if \<not> worldImage s then []
      else [ClearRect (canvas_width s) (canvas_height s),
            DrawWorld (js_neg (viewportX s)) (js_neg (viewportY s))])"

text \<open>\<open>player.animationFrame || 0\<close>: an absent field and the number 0 both give 0.\<close>

fun frameIndex_of :: "int option \<Rightarrow> int" where
  "frameIndex_of None = 0"
| "frameIndex_of (Some n) = (if n = 0 then 0 else n)"

text \<open>Reading an array at a number: \<open>undefined\<close> (\<open>None\<close>) outside the array.\<close>

definition array_get :: "'a list \<Rightarrow> int \<Rightarrow> 'a option" where
  "array_get xs i = (if 0 \<le> i \<and> i < int (length xs) then Some (xs ! nat i) else None)"

text \<open>
  \<open>drawPlayer\<close> returns \<open>Inr None\<close> when it returns early, \<open>Inr (Some sp)\<close> when it requests
  the frame image and installs the \<open>onload\<close> handler that draws \<open>sp\<close>, and \<open>Inl TypeError\<close>
  when it reads a property of \<open>undefined\<close>: \<open>avatar.frames[direction][frameIndex]\<close> with no
  entry for the direction in \<open>avatar.frames\<close>.
\<close>

definition drawPlayer :: "game_client \<Rightarrow> player \<Rightarrow> js_error + sprite option" where
  "drawPlayer s player =
     (let screenPos = worldToScreen s (toNumber (p_x player)) (toNumber (p_y player))
      in case map_of (avatars s) (prop_key (p_avatar player)) of
           None \<Rightarrow> Inr None
         | Some avatar \<Rightarrow>
             let direction = p_facing player;
                 frameIndex = frameIndex_of (p_animationFrame player)
             in (case (if direction = Some ''west'' then map_of (a_frames avatar) ''east''
                       else map_of (a_frames avatar) (prop_key direction)) of
                   None \<Rightarrow> Inl TypeError
                 | Some frameset \<Rightarrow>
                     (case array_get frameset frameIndex of
                        None \<Rightarrow> Inr None
                      | Some frameData \<Rightarrow>
                          if frameData = [] then Inr None
                          else
                            let avatarSize = 32;
                                x = js_sub (fst screenPos) (Num (avatarSize / 2));
                                y = js_sub (snd screenPos) (Num avatarSize)
                            in Inr (Some
                                 \<lparr> src = frameData,
                                   dx = (if direction = Some ''west''
                                         then js_sub (js_neg x) (Num avatarSize) else x),
                                   dy = y,
                                   mirrored = (direction = Some ''west''),
                                   label = p_username player,
                                   label_x = fst screenPos,
                                   label_y = js_sub (js_sub (snd screenPos) (Num avatarSize)) (Num 5) \<rparr>))))"

text \<open>
  The \<open>forEach\<close> of \<open>drawPlayers\<close> over \<open>Object.values(this.players)\<close>; an exception thrown by
  \<open>drawPlayer\<close> ends the loop.
\<close>

fun drawPlayers_loop :: "game_client \<Rightarrow> player list \<Rightarrow> js_error + canvas_op list" where
  "drawPlayers_loop s [] = Inr []"
| "drawPlayers_loop s (player # rest) =
     (if isPositionVisible s (toNumber (p_x player)) (toNumber (p_y player))
      then (case drawPlayer s player of
              Inl e \<Rightarrow> Inl e
            | Inr r \<Rightarrow>
                (case drawPlayers_loop s rest of
                   Inl e \<Rightarrow> Inl e
                 | Inr ops \<Rightarrow> Inr ((case r of None \<Rightarrow> [] | Some sp \<Rightarrow> [DrawSprite sp]) @ ops)))
      else drawPlayers_loop s rest)"

definition drawPlayers :: "game_client \<Rightarrow> js_error + canvas_op list" where
  "drawPlayers s = drawPlayers_loop s (map snd (players s))"

definition draw :: "game_client \<Rightarrow> js_error + canvas_op list" where
  "draw s = (case drawPlayers s of Inl e \<Rightarrow> Inl e | Inr ops \<Rightarrow> Inr (drawWorld s @ ops))"

subsection \<open>World state: the message handlers\<close>

text \<open>
  Every handler mutates the client and then calls \<open>draw\<close>. An exception of \<open>draw\<close> leaves the
  mutation in place, so a handler returns the new client together with the outcome of \<open>draw\<close>.
\<close>

definition spread_field :: "'a option \<Rightarrow> 'a option \<Rightarrow> 'a option" where
  "spread_field old new = (case new of Some v \<Rightarrow> Some v | None \<Rightarrow> old)"

definition empty_object :: player where
  "empty_object =
     \<lparr> p_id = None, p_username = None, p_x = None, p_y = None,
       p_facing = None, p_avatar = None, p_animationFrame = None \<rparr>"

text \<open>
  \<open>{ ...old, ...patch }\<close>: the fields of \<open>old\<close> (none when \<open>old\<close> is \<open>undefined\<close>), each
  overwritten by the field of \<open>patch\<close> when the patch has it.
\<close>

definition spread :: "player option \<Rightarrow> player \<Rightarrow> player" where
  "spread old patch =
     (let base = (case old of None \<Rightarrow> empty_object | Some p \<Rightarrow> p)
      in \<lparr> p_id = spread_field (p_id base) (p_id patch),
           p_username = spread_field (p_username base) (p_username patch),
           p_x = spread_field (p_x base) (p_x patch),
           p_y = spread_field (p_y base) (p_y patch),
           p_facing = spread_field (p_facing base) (p_facing patch),
           p_avatar = spread_field (p_avatar base) (p_avatar patch),
           p_animationFrame = spread_field (p_animationFrame base) (p_animationFrame patch) \<rparr>)"

text \<open>
  The \<open>forEach\<close> of \<open>handlePlayersMoved\<close>. \<open>data.players\<close> is the parsed JSON object, given
  as its entries in key order; the loop visits each key with the value stored under it.
\<close>

fun merge_players :: "(string \<times> player) list \<Rightarrow> game_client \<Rightarrow> game_client" where
  "merge_players [] s = s"
| "merge_players ((playerId, patch) # rest) s =
     merge_players rest
       (s\<lparr>players := AList.update playerId (spread (map_of (players s) playerId) patch) (players s)\<rparr>)"

definition handlePlayersMoved ::
  "game_client \<Rightarrow> (string \<times> player) list \<Rightarrow> game_client \<times> (js_error + canvas_op list)" where
  "handlePlayersMoved s data_players =
     (let s1 = merge_players data_players s;
          s2 = (if (case myPlayerId s1 of
                      None \<Rightarrow> False
                    | Some i \<Rightarrow> i \<noteq> [] \<and> map_of data_players i \<noteq> None)
                then updateViewportForMyAvatar s1 else s1)
      in (s2, draw s2))"

text \<open>
  \<open>handleJoinGame\<close> with \<open>data.success\<close> true replaces the whole mirror; otherwise it only
  logs the error and does not draw.
\<close>

definition handleJoinGame ::
  "game_client \<Rightarrow> bool \<Rightarrow> string option \<Rightarrow> (string \<times> player) list \<Rightarrow> (string \<times> avatar) list
     \<Rightarrow> game_client \<times> (js_error + canvas_op list)" where
  "handleJoinGame s success data_playerId data_players data_avatars =
     (if success
      then let s1 = s\<lparr>myPlayerId := data_playerId\<rparr>;
               s2 = s1\<lparr>players := data_players\<rparr>;
               s3 = s2\<lparr>avatars := data_avatars\<rparr>;
               s4 = centerViewportOnMyAvatar s3
           in (s4, draw s4)
      else (s, Inr []))"

definition handlePlayerJoined ::
  "game_client \<Rightarrow> player \<Rightarrow> avatar \<Rightarrow> game_client \<times> (js_error + canvas_op list)" where
  "handlePlayerJoined s data_player data_avatar =
     (let s1 = s\<lparr>players := AList.update (prop_key (p_id data_player)) data_player (players s)\<rparr>;
          s2 = s1\<lparr>avatars := AList.update (a_name data_avatar) data_avatar (avatars s1)\<rparr>
      in (s2, draw s2))"

definition handlePlayerLeft ::
  "game_client \<Rightarrow> string \<Rightarrow> game_client \<times> (js_error + canvas_op list)" where
  "handlePlayerLeft s playerId =
     (let s1 = s\<lparr>players := AList.delete playerId (players s)\<rparr> in (s1, draw s1))"

subsection \<open>Transport session\<close>

definition sendMessage :: "game_client \<Rightarrow> message \<Rightarrow> game_client" where
  "sendMessage s m = (if ws s = Some OPEN then s\<lparr>sent := sent s @ [m]\<rparr> else s)"

definition joinGame :: "game_client \<Rightarrow> game_client" where
  "joinGame s = sendMessage s (JoinGame ''Tim'')"

text \<open>
  \<open>connectToServer\<close> creates the socket, which starts in state \<open>CONNECTING\<close>, and installs
  the handlers below. The constructor call cannot throw for the fixed, valid URL.
\<close>

definition connectToServer :: "game_client \<Rightarrow> game_client" where
  "connectToServer s = s\<lparr>ws := Some CONNECTING\<rparr>"

definition attemptReconnect :: "game_client \<Rightarrow> game_client" where
  "attemptReconnect s =
     (if reconnectAttempts s < maxReconnectAttempts s
      then let s1 = s\<lparr>reconnectAttempts := reconnectAttempts s + 1\<rparr>
           in s1\<lparr>timers := timers s1 @ [2000 * reconnectAttempts s1]\<rparr>
      else s)"

text \<open>The socket's events: the browser sets the ready state, then runs the handler.\<close>

definition ws_onopen :: "game_client \<Rightarrow> game_client" where
  "ws_onopen s = joinGame (s\<lparr>ws := Some OPEN, reconnectAttempts := 0\<rparr>)"

definition ws_onclose :: "game_client \<Rightarrow> game_client" where
  "ws_onclose s = attemptReconnect (s\<lparr>ws := Some CLOSED\<rparr>)"

text \<open>
  \<open>init\<close>: the canvas size is already in the record, \<open>loadWorldMap\<close> creates the world image,
  the event listeners are the functions \<open>keydown\<close> and \<open>keyup\<close> below.
\<close>

definition loadWorldMap :: "game_client \<Rightarrow> game_client" where
  "loadWorldMap s = s\<lparr>worldImage := True\<rparr>"

definition init :: "game_client \<Rightarrow> game_client" where
  "init s = connectToServer (loadWorldMap s)"

datatype session_event = WsOpen | WsClose | ReconnectTimer

text \<open>A timer set by \<open>attemptReconnect\<close> runs \<open>connectToServer\<close> when it fires.\<close>

fun session_step :: "game_client \<Rightarrow> session_event \<Rightarrow> game_client" where
  "session_step s WsOpen = ws_onopen s"
| "session_step s WsClose = ws_onclose s"
| "session_step s ReconnectTimer = connectToServer s"

definition session_run :: "game_client \<Rightarrow> session_event list \<Rightarrow> game_client" where
  "session_run s es = foldl session_step s es"

subsection \<open>Movement\<close>

definition startMovement :: "game_client \<Rightarrow> game_client" where
  "startMovement s = (if movementLoopId s then s else s\<lparr>movementLoopId := True\<rparr>)"

definition sendStopCommand :: "game_client \<Rightarrow> game_client" where
  "sendStopCommand s = sendMessage s Stop"

definition sendMoveCommand :: "game_client \<Rightarrow> string \<Rightarrow> game_client" where
  "sendMoveCommand s direction = (sendMessage s (Move direction))\<lparr>isMoving := True\<rparr>"

definition stopMovement :: "game_client \<Rightarrow> game_client" where
  "stopMovement s =
     (let s1 = (if movementLoopId s then s\<lparr>movementLoopId := False\<rparr> else s);
          s2 = s1\<lparr>isMoving := False\<rparr>;
          s3 = s2\<lparr>currentDirection := None\<rparr>
      in sendStopCommand s3)"

definition keyMap :: "(string \<times> string) list" where
  "keyMap =
     [(''ArrowUp'', ''up''), (''ArrowDown'', ''down''),
      (''ArrowLeft'', ''left''), (''ArrowRight'', ''right''),
      (''w'', ''up''), (''s'', ''down''), (''a'', ''left''), (''d'', ''right'')]"

definition getDirectionFromKey :: "string \<Rightarrow> string option" where
  "getDirectionFromKey key = map_of keyMap key"

text \<open>
  One run of the animation-frame callback. \<open>direction && direction !== this.currentDirection\<close>
  asks for a direction that is neither \<open>undefined\<close> nor the empty string.
\<close>

definition movementLoop :: "game_client \<Rightarrow> game_client" where
  "movementLoop s =
     (case keysPressed s of
        [] \<Rightarrow> stopMovement s
      | first # _ \<Rightarrow>
          let direction = getDirectionFromKey first;
              s1 = (case direction of
                      None \<Rightarrow> s
                    | Some d \<Rightarrow>
                        if d \<noteq> [] \<and> direction \<noteq> currentDirection s
                        then sendMoveCommand (s\<lparr>currentDirection := direction\<rparr>) d
                        else s)
          in s1\<lparr>movementLoopId := True\<rparr>)"

definition movementKeys :: "string list" where
  "movementKeys =
     [''ArrowUp'', ''ArrowDown'', ''ArrowLeft'', ''ArrowRight'',
      ''w'', ''W'', ''s'', ''S'', ''a'', ''A'', ''d'', ''D'']"

definition keydown :: "game_client \<Rightarrow> string \<Rightarrow> game_client" where
  "keydown s key =
     (if key \<in> set movementKeys
      then (if key \<notin> set (keysPressed s)
            then startMovement (s\<lparr>keysPressed := keysPressed s @ [key]\<rparr>)
            else s)
      else s)"

definition keyup :: "game_client \<Rightarrow> string \<Rightarrow> game_client" where
  "keyup s key =
     (if key \<in> set movementKeys
      then let s1 = s\<lparr>keysPressed := removeAll key (keysPressed s)\<rparr>
           in if keysPressed s1 = [] then stopMovement s1 else s1
      else s)"

text \<open>
  The display's frame clock: the callback runs only while a request is pending
  (\<open>movementLoopId\<close> set and not cancelled). \<open>frames n\<close> is \<open>n\<close> consecutive ticks with no
  other event in between.
\<close>

definition frame :: "game_client \<Rightarrow> game_client" where
  "frame s = (if movementLoopId s then movementLoop s else s)"

fun frames :: "nat \<Rightarrow> game_client \<Rightarrow> game_client" where
  "frames 0 s = s"
| "frames (Suc n) s = frames n (frame s)"

text \<open>The events of the input side: key presses and releases, and ticks of the frame clock.\<close>

datatype input_event = KeyDown string | KeyUp string | Frame

fun input_step :: "game_client \<Rightarrow> input_event \<Rightarrow> game_client" where
  "input_step s (KeyDown key) = keydown s key"
| "input_step s (KeyUp key) = keyup s key"
| "input_step s Frame = frame s"

definition input_run :: "game_client \<Rightarrow> input_event list \<Rightarrow> game_client" where
  "input_run s es = foldl input_step s es"

subsection \<open>Properties of the log of sent messages\<close>

text \<open>
  These two functions are not code of the client; they state what edge-triggered sending
  means. \<open>last_direction cur ms\<close> is the direction last announced to the server once the
  messages \<open>ms\<close> have followed a situation where it was \<open>cur\<close>: a \<open>move\<close> sets it, a \<open>stop\<close>
  clears it. \<open>edge_triggered cur ms\<close> holds when no \<open>move\<close> in \<open>ms\<close> repeats the direction
  announced last before it.
\<close>

fun last_direction :: "string option \<Rightarrow> message list \<Rightarrow> string option" where
  "last_direction cur [] = cur"
| "last_direction cur (Move d # ms) = last_direction (Some d) ms"
| "last_direction cur (Stop # ms) = last_direction None ms"
| "last_direction cur (JoinGame u # ms) = last_direction cur ms"

fun edge_triggered :: "string option \<Rightarrow> message list \<Rightarrow> bool" where
  "edge_triggered cur [] = True"
| "edge_triggered cur (Move d # ms) = (cur \<noteq> Some d \<and> edge_triggered (Some d) ms)"
| "edge_triggered cur (Stop # ms) = edge_triggered None ms"
| "edge_triggered cur (JoinGame u # ms) = edge_triggered cur ms"

text \<open>
  The invariant of the input side while the socket is open: the log is edge-triggered and
  \<open>currentDirection\<close> is the direction last announced in it.
\<close>

definition sent_consistent :: "game_client \<Rightarrow> bool" where
  "sent_consistent s =
     (ws s = Some OPEN \<and> edge_triggered None (sent s) \<and>
      last_direction None (sent s) = currentDirection s)"

section \<open>Numbers\<close>


lemma round_half_even_of_int [simp]: "round_half_even (of_int n) = n"
  by (simp add: round_half_even_def)

lemma ulp_pos: "0 < ulp r"
  by (simp add: ulp_def)

lemma binade_upper:
  assumes "r \<noteq> 0" and "\<bar>r\<bar> < 2 powr of_int m"
  shows "binade r < m"
proof -
  have "log 2 \<bar>r\<bar> < of_int m"
    using assms by (simp add: log_less_iff)
  then show ?thesis unfolding binade_def by (simp add: floor_less_iff)
qed

lemma fl_multiple:
  assumes "\<bar>j\<bar> < 2 ^ 53" and "- 1074 \<le> k"
  shows "fl (of_int j * 2 powr of_int k) = of_int j * 2 powr of_int k"
proof (cases "j = 0")
  case True
  then show ?thesis by (simp add: fl_def)
next
  case False
  let ?r = "of_int j * 2 powr of_int k :: real"
  have nz: "?r \<noteq> 0" using False by simp
  have "\<bar>?r\<bar> = of_int \<bar>j\<bar> * 2 powr of_int k" by (simp add: abs_mult)
  also have "\<dots> < 2 ^ 53 * 2 powr of_int k"
  proof -
    have "(of_int \<bar>j\<bar> :: real) < of_int (2 ^ 53)" using assms(1) by (simp only: of_int_less_iff)
    then show ?thesis by simp
  qed
  also have "\<dots> = 2 powr of_int (k + 53)"
    by (simp add: powr_add)
  finally have "binade ?r < k + 53" using binade_upper [OF nz] by simp
  then have le: "max (binade ?r) (- 1022) - 52 \<le> k" using assms(2) by simp
  define m where "m = max (binade ?r) (- 1022) - 52"
  have u: "ulp ?r = 2 powr of_int m" by (simp add: ulp_def m_def)
  have mk: "m \<le> k" using le by (simp add: m_def)
  have "2 powr of_int k / 2 powr of_int m = (2::real) powr of_int (k - m)"
    by (simp add: powr_diff)
  also have "\<dots> = 2 ^ nat (k - m)"
    using mk powr_real_of_int [of 2 "k - m"] by simp
  finally have pw: "2 powr of_int k / 2 powr of_int m = (2::real) ^ nat (k - m)" .
  have "?r / ulp ?r = of_int j * (2 powr of_int k / 2 powr of_int m)"
    unfolding u by simp
  then have q: "?r / ulp ?r = of_int (j * 2 ^ nat (k - m))"
    unfolding pw by simp
  have rq: "round_half_even (?r / ulp ?r) = j * 2 ^ nat (k - m)"
    unfolding q by (rule round_half_even_of_int)
  have undo: "(2::real) ^ nat (k - m) * 2 powr of_int m = 2 powr of_int k"
    using pw by (simp add: field_simps)
  have "fl ?r = of_int (round_half_even (?r / ulp ?r)) * ulp ?r"
    using nz by (simp only: fl_def if_False)
  then have "fl ?r = of_int (j * 2 ^ nat (k - m)) * ulp ?r"
    unfolding rq .
  then have "fl ?r = of_int (j * 2 ^ nat (k - m)) * 2 powr of_int m"
    unfolding u .
  also have "\<dots> = of_int j * ((2::real) ^ nat (k - m) * 2 powr of_int m)"
    by simp
  finally show ?thesis unfolding undo .
qed




lemma round_half_even_bounds:
  "\<lfloor>q\<rfloor> \<le> round_half_even q \<and> round_half_even q \<le> \<lfloor>q\<rfloor> + 1"
  by (simp add: round_half_even_def Let_def)

lemma round_half_even_ge_int:
  assumes "of_int N \<le> q"
  shows "N \<le> round_half_even q"
proof -
  from assms have "N \<le> \<lfloor>q\<rfloor>" by (simp add: le_floor_iff)
  then show ?thesis using round_half_even_bounds [of q] by linarith
qed

lemma round_half_even_le_int:
  assumes "q \<le> of_int N"
  shows "round_half_even q \<le> N"
proof (cases "\<lfloor>q\<rfloor> < N")
  case True
  then show ?thesis using round_half_even_bounds [of q] by simp
next
  case False
  then have "of_int N \<le> q" by (simp add: not_less le_floor_iff)
  with assms have "q = of_int N" by simp
  then show ?thesis by simp
qed

lemma fl_ge_multiple:
  assumes "of_int N * ulp r \<le> r"
  shows "of_int N * ulp r \<le> fl r"
proof (cases "r = 0")
  case True
  then show ?thesis using assms by (simp add: fl_def)
next
  case False
  have "of_int N \<le> r / ulp r"
    using assms ulp_pos [of r] by (simp add: pos_le_divide_eq)
  then have "N \<le> round_half_even (r / ulp r)" by (rule round_half_even_ge_int)
  then have "(of_int N :: real) \<le> of_int (round_half_even (r / ulp r))" by simp
  then show ?thesis
    using False ulp_pos [of r] by (simp add: fl_def)
qed

lemma fl_le_multiple:
  assumes "r \<le> of_int N * ulp r"
  shows "fl r \<le> of_int N * ulp r"
proof (cases "r = 0")
  case True
  then show ?thesis using assms by (simp add: fl_def)
next
  case False
  have "r / ulp r \<le> of_int N"
    using assms ulp_pos [of r] by (simp add: pos_divide_le_eq)
  then have "round_half_even (r / ulp r) \<le> N" by (rule round_half_even_le_int)
  then have "(of_int (round_half_even (r / ulp r)) :: real) \<le> of_int N" by simp
  then show ?thesis
    using False ulp_pos [of r] by (simp add: fl_def)
qed

lemma fl_nonneg: "0 \<le> r \<Longrightarrow> 0 \<le> fl r"
  using fl_ge_multiple [of 0 r] by simp

lemma fl_nonpos: "r \<le> 0 \<Longrightarrow> fl r \<le> 0"
  using fl_le_multiple [of r 0] by simp

lemma binade_lower:
  assumes "r \<noteq> 0"
  shows "2 powr of_int (binade r) \<le> \<bar>r\<bar>"
proof -
  have "of_int (binade r) \<le> log 2 \<bar>r\<bar>" by (simp add: binade_def)
  then show ?thesis using assms by (simp add: le_log_iff)
qed

lemma binade_strict_upper:
  assumes "r \<noteq> 0"
  shows "\<bar>r\<bar> < 2 powr of_int (binade r + 1)"
proof -
  have "log 2 \<bar>r\<bar> < of_int (binade r + 1)" unfolding binade_def by linarith
  then show ?thesis using assms by (simp add: log_less_iff)
qed

lemma two_powr_nonpos: "e \<le> 0 \<Longrightarrow> (2::real) powr of_int e = 1 / 2 ^ nat (- e)"
  using powr_real_of_int [of 2 e] by (auto simp: inverse_eq_divide)

lemma two_powr_nonneg: "0 \<le> e \<Longrightarrow> (2::real) powr of_int e = 2 ^ nat e"
  using powr_real_of_int [of 2 e] by simp

lemma two_powr_mono: "a \<le> b \<Longrightarrow> (2::real) powr of_int a \<le> 2 powr of_int b"
  by simp

text \<open>Rounding never crosses a natural number below \<open>2^53\<close>.\<close>

lemma fl_ge_nat:
  assumes "real h \<le> v" and "h < 2 ^ 53"
  shows "real h \<le> fl v"
proof (cases "h = 0")
  case True
  then show ?thesis using assms(1) fl_nonneg [of v] by simp
next
  case False
  then have v1: "1 \<le> v" using assms(1) by linarith
  then have vnz: "v \<noteq> 0" and vabs: "\<bar>v\<bar> = v" by simp_all
  have b0: "0 \<le> binade v"
  proof -
    have "0 \<le> log 2 v" using v1 by simp
    then show ?thesis by (simp add: binade_def vabs)
  qed
  define m where "m = binade v - 52"
  have u: "ulp v = 2 powr of_int m" using b0 by (simp add: ulp_def m_def max_def)
  show ?thesis
  proof (cases "m \<le> 0")
    case True
    have eq: "of_int (int h * 2 ^ nat (- m)) * ulp v = real h"
      unfolding u two_powr_nonpos [OF True] by simp
    have "of_int (int h * 2 ^ nat (- m)) * ulp v \<le> fl v"
    proof (rule fl_ge_multiple)
      show "of_int (int h * 2 ^ nat (- m)) * ulp v \<le> v"
        unfolding eq by (rule assms(1))
    qed
    then show ?thesis unfolding eq .
  next
    case False
    then have b53: "53 \<le> binade v" by (simp add: m_def)
    have "(2::real) ^ 52 * 2 powr of_int m = 2 powr of_int (binade v)"
    proof -
      have "(2::real) ^ 52 = 2 powr of_int 52" by simp
      then have "(2::real) ^ 52 * 2 powr of_int m = 2 powr (of_int 52 + of_int m)"
        by (simp only: powr_add)
      then show ?thesis by (simp add: m_def)
    qed
    then have eq: "of_int (2 ^ 52) * ulp v = 2 powr of_int (binade v)"
      unfolding u by simp
    have "of_int (2 ^ 52) * ulp v \<le> fl v"
    proof (rule fl_ge_multiple)
      show "of_int (2 ^ 52) * ulp v \<le> v"
        unfolding eq using binade_lower [OF vnz] vabs by simp
    qed
    then have ge: "2 powr of_int (binade v) \<le> fl v" unfolding eq .
    have "(2::real) ^ 53 \<le> 2 powr of_int (binade v)"
      using two_powr_mono [OF b53] by simp
    moreover have "real h < 2 ^ 53"
    proof -
      have "real h < real (2 ^ 53)" using assms(2) by (simp only: of_nat_less_iff)
      then show ?thesis by simp
    qed
    ultimately show ?thesis using ge by linarith
  qed
qed


text \<open>
  The difference of a double \<open>x\<close> below \<open>2^52\<close> and a non-negative multiple of one half is a
  double when it is positive: it is a multiple of the last bit of \<open>x\<close> and smaller than \<open>x\<close>.
\<close>

lemma fl_difference_exact:
  assumes "representable x" and "0 < x - real w / 2" and "x < 2 ^ 52"
  shows "fl (x - real w / 2) = x - real w / 2"
proof -
  have xpos: "0 < x" using assms(2) by (smt (verit) of_nat_0_le_iff divide_nonneg_nonneg)
  then have xnz: "x \<noteq> 0" and xabs: "\<bar>x\<bar> = x" by simp_all
  define m where "m = max (binade x) (- 1022) - 52"
  have u: "ulp x = 2 powr of_int m" by (simp add: ulp_def m_def)
  have "\<bar>x\<bar> < 2 powr of_int 52" using assms(3) xabs by simp
  then have b52: "binade x < 52" by (rule binade_upper [OF xnz])
  then have m_neg: "m \<le> - 1" by (simp add: m_def)
  have m_low: "- 1074 \<le> m" by (simp add: m_def)
  have m_bin: "binade x + 1 - m \<le> 53" by (simp add: m_def)
  define j where "j = round_half_even (x / ulp x)"
  have xj: "x = of_int j * 2 powr of_int m"
  proof -
    have "fl x = of_int j * ulp x" using xnz by (simp add: fl_def j_def)
    then show ?thesis using assms(1) by (simp add: representable_def u)
  qed
  have jlt: "j < 2 ^ 53"
  proof -
    have "x < 2 powr of_int (binade x + 1)"
      using binade_strict_upper [OF xnz] xabs by simp
    also have "\<dots> = 2 powr of_int (binade x + 1 - m) * 2 powr of_int m"
      by (simp add: powr_add [symmetric])
    also have "\<dots> \<le> 2 powr of_int 53 * 2 powr of_int m"
      using two_powr_mono [OF m_bin] by (intro mult_right_mono) simp_all
    finally have "x < 2 powr of_int 53 * 2 powr of_int m" .
    then have "of_int j * (2::real) powr of_int m < 2 powr of_int 53 * 2 powr of_int m"
      using xj by simp
    then have "(of_int j :: real) < 2 powr of_int 53" by simp
    then have "(of_int j :: real) < of_int (2 ^ 53)" by simp
    then show ?thesis by (simp only: of_int_less_iff)
  qed
  have m0: "m \<le> 0" using m_neg by simp
  have up: "(2::real) powr of_int m = 1 / 2 ^ nat (- m)" by (rule two_powr_nonpos [OF m0])
  have split: "(2::real) ^ nat (- m) = 2 * 2 ^ (nat (- m) - 1)"
  proof -
    have "nat (- m) = Suc (nat (- m) - 1)" using m_neg by simp
    then have "(2::real) ^ nat (- m) = 2 ^ Suc (nat (- m) - 1)" by simp
    then show ?thesis by simp
  qed
  define j' where "j' = j - int w * 2 ^ (nat (- m) - 1)"
  have c: "real w / 2 = of_int (int w * 2 ^ (nat (- m) - 1)) * 2 powr of_int m"
    unfolding up by (simp add: split)
  have vj: "x - real w / 2 = of_int j' * 2 powr of_int m"
    unfolding c j'_def using xj by (simp add: algebra_simps)
  have "0 < of_int j' * (2::real) powr of_int m" using assms(2) vj by simp
  then have "(0::real) < of_int j'" by (simp add: zero_less_mult_iff)
  then have j'pos: "0 < j'" by simp
  have "j' \<le> j" by (simp add: j'_def)
  then have "\<bar>j'\<bar> < 2 ^ 53" using j'pos jlt by simp
  then have "fl (of_int j' * 2 powr of_int m) = of_int j' * 2 powr of_int m"
    using m_low by (rule fl_multiple)
  then show ?thesis unfolding vj .
qed

lemma recenter_rounding_absorbed:
  assumes "representable x" and "w < 2 ^ 32" and "W < 2 ^ 32"
  shows "Math_max (Num 0) (Math_min (js_sub (Num x) (Num (real w / 2))) (Num (real W - real w)))
       = Math_max (Num 0) (Math_min (js_sub_exact (Num x) (Num (real w / 2))) (Num (real W - real w)))"
proof -
  define v where "v = x - real w / 2"
  define h where "h = real W - real w"
  have rhs: "Math_max (Num 0) (Math_min (js_sub_exact (Num x) (Num (real w / 2))) (Num h))
             = Num (max 0 (min v h))"
    by (simp add: v_def)
  have lhs: "js_sub (Num x) (Num (real w / 2)) = round_to_double v"
    by (simp add: v_def)
  have goal: "Math_max (Num 0) (Math_min (round_to_double v) (Num h)) = Num (max 0 (min v h))"
  proof (cases "h < 0")
    case True
    then show ?thesis by (simp add: round_to_double_def)
  next
    case False
    then have hge: "0 \<le> h" by simp
    then have "w \<le> W" by (simp add: h_def)
    then have hnat: "h = real (W - w)" by (simp add: h_def)
    have hsmall: "W - w < 2 ^ 53"
    proof -
      have "W - w \<le> W" by simp
      also have "W < 2 ^ 32" by (rule assms(3))
      also have "(2::nat) ^ 32 < 2 ^ 53" by simp
      finally show ?thesis .
    qed
    have hbig: "h < 2 ^ 1024"
    proof -
      have "real (W - w) < real (2 ^ 53)" using hsmall by (simp only: of_nat_less_iff)
      then have "h < 2 ^ 53" by (simp add: hnat)
      also have "(2::real) ^ 53 < 2 ^ 1024" by simp
      finally show ?thesis .
    qed
    consider (low) "v \<le> 0" | (high) "h \<le> v" | (mid) "0 < v" "v < h" by linarith
    then show ?thesis
    proof cases
      case low
      then have "fl v \<le> 0" by (rule fl_nonpos)
      then show ?thesis using low hge by (simp add: round_to_double_def)
    next
      case high
      have "real (W - w) \<le> fl v"
        using high hsmall by (intro fl_ge_nat) (simp_all add: hnat)
      then have "h \<le> fl v" by (simp add: hnat)
      then show ?thesis using high hge by (simp add: round_to_double_def)
    next
      case mid
      have "x < h + real w / 2" using mid(2) by (simp add: v_def)
      also have "\<dots> \<le> real W" by (simp add: h_def)
      also have "real W < real (2 ^ 32)" using assms(3) by (simp only: of_nat_less_iff)
      also have "real (2 ^ 32) < 2 ^ 52" by simp
      finally have x52: "x < 2 ^ 52" .
      have "fl v = v"
        unfolding v_def using assms(1) mid(1) x52 by (intro fl_difference_exact) (simp_all add: v_def)
      then show ?thesis using mid hbig by (simp add: round_to_double_def)
    qed
  qed
  show ?thesis
    unfolding lhs using goal rhs by (simp add: h_def)
qed

section \<open>Camera\<close>

lemma clamp_code_eq_spec: "max 0 (min v hi) = clamp_into 0 hi v"
  by (simp add: clamp_into_def max_def min_def)

lemma clamp_into_range: "lo \<le> hi \<Longrightarrow> lo \<le> clamp_into lo hi v \<and> clamp_into lo hi v \<le> hi"
  by (simp add: clamp_into_def)

lemma clamp_into_empty: "hi < lo \<Longrightarrow> clamp_into lo hi v = lo"
  by (simp add: clamp_into_def)

lemma myPlayer_of_Some:
  "myPlayerId s = Some i \<Longrightarrow> i \<noteq> [] \<Longrightarrow> map_of (players s) i = Some p \<Longrightarrow> myPlayer_of s = Some p"
  by (simp add: myPlayer_of_def)

text \<open>
  Claim C7. When the local player is in the mirror with a numeric position, both recentring
  operations (the hard one, \<open>centerViewportOnMyAvatar\<close>, and the soft one,
  \<open>updateViewportForMyAvatar\<close>) set each axis of the viewport offset to the player's
  position minus half the canvas size, clamped into \<open>[0, worldSize - canvasSize]\<close>. This holds
  for every position, inside the world or not, and when the world is smaller than the canvas
  on an axis the offset on that axis is 0.
\<close>

theorem recenter_clamps_viewport:
  assumes "myPlayerId s = Some i" and "i \<noteq> []" and "map_of (players s) i = Some p"
    and "p_x p = Some px" and "p_y p = Some py"
  shows "viewportX (centerViewportOnMyAvatar s) =
           Num (clamp_into 0 (worldWidth s - real (canvas_width s)) (px - real (canvas_width s) / 2))
       \<and> viewportY (centerViewportOnMyAvatar s) =
           Num (clamp_into 0 (worldHeight s - real (canvas_height s)) (py - real (canvas_height s) / 2))
       \<and> viewportX (updateViewportForMyAvatar s) =
           Num (clamp_into 0 (worldWidth s - real (canvas_width s)) (px - real (canvas_width s) / 2))
       \<and> viewportY (updateViewportForMyAvatar s) =
           Num (clamp_into 0 (worldHeight s - real (canvas_height s)) (py - real (canvas_height s) / 2))
       \<and> (worldWidth s < real (canvas_width s) \<longrightarrow>
            viewportX (centerViewportOnMyAvatar s) = Num 0 \<and>
            viewportX (updateViewportForMyAvatar s) = Num 0)
       \<and> (worldHeight s < real (canvas_height s) \<longrightarrow>
            viewportY (centerViewportOnMyAvatar s) = Num 0 \<and>
            viewportY (updateViewportForMyAvatar s) = Num 0)"
proof -
  have me: "myPlayer_of s = Some p"
    using assms(1-3) by (rule myPlayer_of_Some)
  have cx: "viewportX (centerViewportOnMyAvatar s) =
           Num (clamp_into 0 (worldWidth s - real (canvas_width s)) (px - real (canvas_width s) / 2))"
    using me assms(4,5) by (simp add: centerViewportOnMyAvatar_def Let_def clamp_code_eq_spec)
  have cy: "viewportY (centerViewportOnMyAvatar s) =
           Num (clamp_into 0 (worldHeight s - real (canvas_height s)) (py - real (canvas_height s) / 2))"
    using me assms(4,5) by (simp add: centerViewportOnMyAvatar_def Let_def clamp_code_eq_spec)
  have ux: "viewportX (updateViewportForMyAvatar s) =
           Num (clamp_into 0 (worldWidth s - real (canvas_width s)) (px - real (canvas_width s) / 2))"
    using me assms(4,5) by (simp add: updateViewportForMyAvatar_def Let_def clamp_code_eq_spec)
  have uy: "viewportY (updateViewportForMyAvatar s) =
           Num (clamp_into 0 (worldHeight s - real (canvas_height s)) (py - real (canvas_height s) / 2))"
    using me assms(4,5) by (simp add: updateViewportForMyAvatar_def Let_def clamp_code_eq_spec)
  have zx: "worldWidth s < real (canvas_width s) \<longrightarrow>
            viewportX (centerViewportOnMyAvatar s) = Num 0 \<and>
            viewportX (updateViewportForMyAvatar s) = Num 0"
    unfolding cx ux by (simp add: clamp_into_empty)
  have zy: "worldHeight s < real (canvas_height s) \<longrightarrow>
            viewportY (centerViewportOnMyAvatar s) = Num 0 \<and>
            viewportY (updateViewportForMyAvatar s) = Num 0"
    unfolding cy uy by (simp add: clamp_into_empty)
  from cx cy ux uy zx zy show ?thesis by blast
qed

text \<open>
  The theorem at a player standing right of the world's edge, on a canvas of 800 by 600 and on
  one of 3000 by 600, wider than the world.
\<close>

theorem recenter_clamps_viewport_witness:
  "viewportX (centerViewportOnMyAvatar ((constructor 800 600)
      \<lparr>myPlayerId := Some ''me'', players := [(''me'', empty_object\<lparr>p_x := Some 3000, p_y := Some 100\<rparr>)]\<rparr>))
     = Num 1248
   \<and> viewportY (updateViewportForMyAvatar ((constructor 800 600)
      \<lparr>myPlayerId := Some ''me'', players := [(''me'', empty_object\<lparr>p_x := Some 3000, p_y := Some 100\<rparr>)]\<rparr>))
     = Num 0
   \<and> viewportX (updateViewportForMyAvatar ((constructor 3000 600)
      \<lparr>myPlayerId := Some ''me'', players := [(''me'', empty_object\<lparr>p_x := Some 3000, p_y := Some 100\<rparr>)]\<rparr>))
     = Num 0"
  using recenter_clamps_viewport
      [of "(constructor 800 600)
             \<lparr>myPlayerId := Some ''me'', players := [(''me'', empty_object\<lparr>p_x := Some 3000, p_y := Some 100\<rparr>)]\<rparr>"
          "''me''" "empty_object\<lparr>p_x := Some 3000, p_y := Some 100\<rparr>" 3000 100]
    recenter_clamps_viewport
      [of "(constructor 3000 600)
             \<lparr>myPlayerId := Some ''me'', players := [(''me'', empty_object\<lparr>p_x := Some 3000, p_y := Some 100\<rparr>)]\<rparr>"
          "''me''" "empty_object\<lparr>p_x := Some 3000, p_y := Some 100\<rparr>" 3000 100]
  by (simp add: constructor_def empty_object_def clamp_into_def)

text \<open>
  The two recentring functions take the difference \<open>myPlayer.x - centerX\<close> without rounding.
  For a position that is a double, on a canvas and a world of integer sizes below \<open>2^32\<close>, the
  offsets they compute are those of the rounded difference.
\<close>

lemma recenter_agrees_with_rounded_difference:
  assumes "myPlayerId s = Some i" and "i \<noteq> []" and "map_of (players s) i = Some p"
    and "p_x p = Some px" and "p_y p = Some py"
    and "representable px" and "representable py"
    and "canvas_width s < 2 ^ 32" and "canvas_height s < 2 ^ 32"
    and "worldWidth s = real W" and "worldHeight s = real H" and "W < 2 ^ 32" and "H < 2 ^ 32"
  shows "viewportX (centerViewportOnMyAvatar s) =
           Math_max (Num 0) (Math_min (js_sub (Num px) (Num (real (canvas_width s) / 2)))
                                      (Num (worldWidth s - real (canvas_width s))))"
    and "viewportY (centerViewportOnMyAvatar s) =
           Math_max (Num 0) (Math_min (js_sub (Num py) (Num (real (canvas_height s) / 2)))
                                      (Num (worldHeight s - real (canvas_height s))))"
    and "viewportX (updateViewportForMyAvatar s) =
           Math_max (Num 0) (Math_min (js_sub (Num px) (Num (real (canvas_width s) / 2)))
                                      (Num (worldWidth s - real (canvas_width s))))"
    and "viewportY (updateViewportForMyAvatar s) =
           Math_max (Num 0) (Math_min (js_sub (Num py) (Num (real (canvas_height s) / 2)))
                                      (Num (worldHeight s - real (canvas_height s))))"
proof -
  have me: "myPlayer_of s = Some p"
    using assms(1-3) by (rule myPlayer_of_Some)
  have x: "Math_max (Num 0) (Math_min (js_sub (Num px) (Num (real (canvas_width s) / 2)))
                                      (Num (worldWidth s - real (canvas_width s))))
         = Math_max (Num 0) (Math_min (js_sub_exact (Num px) (Num (real (canvas_width s) / 2)))
                                      (Num (worldWidth s - real (canvas_width s))))"
    unfolding assms(10) using assms(6,8,12) by (rule recenter_rounding_absorbed)
  have y: "Math_max (Num 0) (Math_min (js_sub (Num py) (Num (real (canvas_height s) / 2)))
                                      (Num (worldHeight s - real (canvas_height s))))
         = Math_max (Num 0) (Math_min (js_sub_exact (Num py) (Num (real (canvas_height s) / 2)))
                                      (Num (worldHeight s - real (canvas_height s))))"
    unfolding assms(11) using assms(7,9,13) by (rule recenter_rounding_absorbed)
  show "viewportX (centerViewportOnMyAvatar s) =
           Math_max (Num 0) (Math_min (js_sub (Num px) (Num (real (canvas_width s) / 2)))
                                      (Num (worldWidth s - real (canvas_width s))))"
    unfolding x using me assms(4,5) by (simp add: centerViewportOnMyAvatar_def Let_def)
  show "viewportY (centerViewportOnMyAvatar s) =
           Math_max (Num 0) (Math_min (js_sub (Num py) (Num (real (canvas_height s) / 2)))
                                      (Num (worldHeight s - real (canvas_height s))))"
    unfolding y using me assms(4,5) by (simp add: centerViewportOnMyAvatar_def Let_def)
  show "viewportX (updateViewportForMyAvatar s) =
           Math_max (Num 0) (Math_min (js_sub (Num px) (Num (real (canvas_width s) / 2)))
                                      (Num (worldWidth s - real (canvas_width s))))"
    unfolding x using me assms(4,5) by (simp add: updateViewportForMyAvatar_def Let_def)
  show "viewportY (updateViewportForMyAvatar s) =
           Math_max (Num 0) (Math_min (js_sub (Num py) (Num (real (canvas_height s) / 2)))
                                      (Num (worldHeight s - real (canvas_height s))))"
    unfolding y using me assms(4,5) by (simp add: updateViewportForMyAvatar_def Let_def)
qed







section \<open>World state\<close>

lemma spread_field_None [simp]: "spread_field None new = new"
  by (cases new) (simp_all add: spread_field_def)

lemma spread_undefined: "spread None patch = patch"
  by (simp add: spread_def empty_object_def)

lemma map_of_merge_players:
  "distinct (map fst patch) \<Longrightarrow>
   map_of (players (merge_players patch s)) i =
     (case map_of patch i of
        None \<Rightarrow> map_of (players s) i
      | Some p \<Rightarrow> Some (spread (map_of (players s) i) p))"
proof (induction patch arbitrary: s)
  case Nil
  then show ?case by simp
next
  case (Cons e rest)
  obtain k p where e: "e = (k, p)" by (cases e)
  from Cons.prems e have notin: "map_of rest k = None" and d: "distinct (map fst rest)"
    by (auto simp: map_of_eq_None_iff)
  show ?case
    using Cons.IH [OF d] notin e
    by (auto simp: update_conv' split: option.splits)
qed

lemma players_updateViewportForMyAvatar [simp]:
  "players (updateViewportForMyAvatar s) = players s"
  by (simp add: updateViewportForMyAvatar_def Let_def split: option.splits)

lemma players_handlePlayersMoved:
  "players (fst (handlePlayersMoved s patch)) = players (merge_players patch s)"
  by (simp add: handlePlayersMoved_def Let_def)

text \<open>
  Claim C1, as the code has it. For every \<open>players_moved\<close> patch (a JSON object, so its keys
  are distinct) and every player id in the patch that is absent from the mirror, applying
  the patch stores a new record under that id, made of exactly the fields the patch gives
  for it: \<open>{ ...undefined, ...patch }\<close> is a copy of the patch entry.
\<close>

theorem players_moved_unknown_id_creates_record:
  assumes "distinct (map fst patch)" and "(i, p) \<in> set patch" and "map_of (players s) i = None"
  shows "map_of (players (fst (handlePlayersMoved s patch))) i = Some p"
proof -
  from assms(1,2) have "map_of patch i = Some p" by simp
  with assms(1,3) show ?thesis
    by (simp add: players_handlePlayersMoved map_of_merge_players spread_undefined)
qed

theorem players_moved_unknown_id_creates_record_witness:
  "distinct (map fst [(''p1'', empty_object\<lparr>p_x := Some 5\<rparr>), (''p2'', empty_object\<lparr>p_y := Some 7\<rparr>)])
   \<and> (''p2'', empty_object\<lparr>p_y := Some 7\<rparr>)
        \<in> set [(''p1'', empty_object\<lparr>p_x := Some 5\<rparr>), (''p2'', empty_object\<lparr>p_y := Some 7\<rparr>)]
   \<and> map_of (players (init (constructor 800 600))) ''p2'' = None
   \<and> map_of (players (fst (handlePlayersMoved (init (constructor 800 600))
          [(''p1'', empty_object\<lparr>p_x := Some 5\<rparr>), (''p2'', empty_object\<lparr>p_y := Some 7\<rparr>)]))) ''p2''
       = Some (empty_object\<lparr>p_y := Some 7\<rparr>)"
  using players_moved_unknown_id_creates_record
    [of "[(''p1'', empty_object\<lparr>p_x := Some 5\<rparr>), (''p2'', empty_object\<lparr>p_y := Some 7\<rparr>)]"
        "''p2''" "empty_object\<lparr>p_y := Some 7\<rparr>" "init (constructor 800 600)"]
  by (simp add: init_def loadWorldMap_def connectToServer_def constructor_def)

text \<open>
  Claim C1 as stated fails: on the empty mirror, the patch \<open>{"p1": {"x": 5}}\<close> changes what
  the mirror holds under \<open>p1\<close>, from nothing to the record \<open>{x: 5}\<close>.
\<close>

theorem players_moved_unknown_id_counterexample:
  "map_of (players (constructor 800 600)) ''p1'' = None
   \<and> map_of (players (fst (handlePlayersMoved (constructor 800 600)
          [(''p1'', empty_object\<lparr>p_x := Some 5\<rparr>)]))) ''p1''
       \<noteq> map_of (players (constructor 800 600)) ''p1''"
  by (simp add: handlePlayersMoved_def Let_def constructor_def spread_def empty_object_def)

text \<open>
  Claim C2, as the code has it. For every \<open>player_joined\<close> event the player record is stored
  under the player's id and the avatar record under the avatar's name, each inserted or
  overwritten; every other entry of the two mappings is left as it was.
\<close>

theorem player_joined_overwrites:
  "map_of (players (fst (handlePlayerJoined s p a))) = (map_of (players s))(prop_key (p_id p) \<mapsto> p)
   \<and> map_of (avatars (fst (handlePlayerJoined s p a))) = (map_of (avatars s))(a_name a \<mapsto> a)"
  by (simp add: handlePlayerJoined_def Let_def update_conv')

text \<open>
  Claim C2 as stated fails: with an avatar \<open>knight\<close> already known, a \<open>player_joined\<close> event
  carrying another definition under the same name replaces the known one.
\<close>

theorem player_joined_avatar_counterexample:
  "map_of (avatars ((constructor 800 600)
        \<lparr>avatars := [(''knight'', \<lparr>a_name = ''knight'', a_frames = [(''south'', [''old''])]\<rparr>)]\<rparr>)) ''knight''
     = Some \<lparr>a_name = ''knight'', a_frames = [(''south'', [''old''])]\<rparr>
   \<and> map_of (avatars (fst (handlePlayerJoined
        ((constructor 800 600)
           \<lparr>avatars := [(''knight'', \<lparr>a_name = ''knight'', a_frames = [(''south'', [''old''])]\<rparr>)]\<rparr>)
        (empty_object\<lparr>p_id := Some ''p2'', p_avatar := Some ''knight''\<rparr>)
        \<lparr>a_name = ''knight'', a_frames = [(''south'', [''new''])]\<rparr>))) ''knight''
     = Some \<lparr>a_name = ''knight'', a_frames = [(''south'', [''new''])]\<rparr>
   \<and> \<lparr>a_name = ''knight'', a_frames = [(''south'', [''new''])]\<rparr>
       \<noteq> \<lparr>a_name = ''knight'', a_frames = [(''south'', [''old''])]\<rparr>"
  by (simp add: handlePlayerJoined_def Let_def constructor_def)

section \<open>Drawing\<close>

lemma drawPlayer_missing_avatar_skips:
  "map_of (avatars s) (prop_key (p_avatar p)) = None \<Longrightarrow> drawPlayer s p = Inr None"
  by (simp add: drawPlayer_def Let_def)

lemma drawPlayer_missing_frame_skips:
  assumes "map_of (avatars s) (prop_key (p_avatar p)) = Some a"
    and "(if p_facing p = Some ''west'' then map_of (a_frames a) ''east''
          else map_of (a_frames a) (prop_key (p_facing p))) = Some frameset"
    and "array_get frameset (frameIndex_of (p_animationFrame p)) = None"
  shows "drawPlayer s p = Inr None"
  using assms by (auto simp add: drawPlayer_def Let_def split: if_splits)

lemma drawPlayer_missing_frameset_throws:
  assumes "map_of (avatars s) (prop_key (p_avatar p)) = Some a"
    and "(if p_facing p = Some ''west'' then map_of (a_frames a) ''east''
          else map_of (a_frames a) (prop_key (p_facing p))) = None"
  shows "drawPlayer s p = Inl TypeError"
  using assms by (auto simp add: drawPlayer_def Let_def split: if_splits)

text \<open>
  Claim C4 says that \<open>drawPlayer\<close> never faults. It skips silently when the avatar is missing
  and when the frame at the index is missing (the two lemmas above), but not when the frame
  set of the facing is missing: for a player facing north whose avatar has frames for south
  and east only, \<open>avatar.frames[direction]\<close> is \<open>undefined\<close> and indexing it throws.
\<close>

theorem drawPlayer_missing_frameset_faults:
  "drawPlayer
     ((constructor 800 600)
        \<lparr>avatars := [(''knight'', \<lparr>a_name = ''knight'',
                                   a_frames = [(''south'', [''img0'']), (''east'', [''img1''])]\<rparr>)]\<rparr>)
     \<lparr>p_id = Some ''p1'', p_username = Some ''Tim'', p_x = Some 10, p_y = Some 10,
       p_facing = Some ''north'', p_avatar = Some ''knight'', p_animationFrame = Some 0\<rparr>
   = Inl TypeError"
  by (simp add: drawPlayer_def Let_def constructor_def worldToScreen_def)

text \<open>
  Claim C10. For every player record whose \<open>animationFrame\<close> is absent or 0 (the falsy values
  of the field), \<open>drawPlayer\<close> uses index 0: when the avatar is known and the frame set of the
  facing starts with a non-empty frame, the player is drawn with that first frame, and the
  outcome is in every case the one for \<open>animationFrame = 0\<close>.
\<close>

theorem drawPlayer_absent_animationFrame_uses_frame_zero:
  assumes "p_animationFrame p = None \<or> p_animationFrame p = Some 0"
    and "map_of (avatars s) (prop_key (p_avatar p)) = Some a"
    and "(if p_facing p = Some ''west'' then map_of (a_frames a) ''east''
          else map_of (a_frames a) (prop_key (p_facing p))) = Some (f0 # fs)"
    and "f0 \<noteq> []"
  shows "(\<exists>sp. drawPlayer s p = Inr (Some sp) \<and> src sp = f0)
       \<and> drawPlayer s p = drawPlayer s (p\<lparr>p_animationFrame := Some 0\<rparr>)"
  using assms
  by (auto simp add: drawPlayer_def Let_def array_get_def split: option.splits if_splits)

theorem drawPlayer_absent_animationFrame_uses_frame_zero_witness:
  "p_animationFrame (empty_object\<lparr>p_x := Some 10, p_y := Some 40, p_facing := Some ''south'',
                                  p_avatar := Some ''knight''\<rparr>) = None
   \<and> (\<exists>sp. drawPlayer
          ((constructor 800 600)
             \<lparr>avatars := [(''knight'', \<lparr>a_name = ''knight'',
                                        a_frames = [(''south'', [''img0'', ''img1''])]\<rparr>)]\<rparr>)
          (empty_object\<lparr>p_x := Some 10, p_y := Some 40, p_facing := Some ''south'',
                         p_avatar := Some ''knight''\<rparr>) = Inr (Some sp)
        \<and> src sp = ''img0'')"
proof -
  let ?p = "empty_object\<lparr>p_x := Some 10, p_y := Some 40, p_facing := Some ''south'',
                         p_avatar := Some ''knight''\<rparr>"
  let ?a = "\<lparr>a_name = ''knight'', a_frames = [(''south'', [''img0'', ''img1''])]\<rparr>"
  let ?s = "(constructor 800 600)\<lparr>avatars := [(''knight'', ?a)]\<rparr>"
  have absent: "p_animationFrame ?p = None"
    by (simp add: empty_object_def)
  then have h1: "p_animationFrame ?p = None \<or> p_animationFrame ?p = Some 0" ..
  have h2: "map_of (avatars ?s) (prop_key (p_avatar ?p)) = Some ?a"
    by (simp add: empty_object_def)
  have h3: "(if p_facing ?p = Some ''west'' then map_of (a_frames ?a) ''east''
             else map_of (a_frames ?a) (prop_key (p_facing ?p))) = Some (''img0'' # [''img1''])"
    by (simp add: empty_object_def)
  have h4: "''img0'' \<noteq> []" by simp
  from drawPlayer_absent_animationFrame_uses_frame_zero [OF h1 h2 h3 h4] absent
  show ?thesis by blast
qed

section \<open>Transport session\<close>

lemma attemptReconnect_below:
  "reconnectAttempts s < maxReconnectAttempts s \<Longrightarrow>
   attemptReconnect s =
     s\<lparr>reconnectAttempts := Suc (reconnectAttempts s),
       timers := timers s @ [2000 * Suc (reconnectAttempts s)]\<rparr>"
  by (simp add: attemptReconnect_def Let_def)

lemma attemptReconnect_exhausted:
  "\<not> reconnectAttempts s < maxReconnectAttempts s \<Longrightarrow> attemptReconnect s = s"
  by (simp add: attemptReconnect_def)

lemma upt_attempts_step:
  assumes "a < (m::nat)"
  shows "[Suc a ..< Suc (min (a + Suc c) m)] = Suc a # [Suc (Suc a) ..< Suc (min (Suc a + c) m)]"
proof -
  from assms have "Suc a < Suc (min (a + Suc c) m)" by simp
  then have "[Suc a ..< Suc (min (a + Suc c) m)] = Suc a # [Suc (Suc a) ..< Suc (min (a + Suc c) m)]"
    by (rule upt_conv_Cons)
  then show ?thesis by simp
qed

text \<open>
  Any sequence of closes and timer firings with no successful open in between: the counter
  is the number of closes, capped at the maximum, and the timers scheduled are
  \<open>2000 * k\<close> for each attempt number \<open>k\<close> reached.
\<close>

lemma session_run_without_open:
  assumes "WsOpen \<notin> set es" and "maxReconnectAttempts s = m" and "reconnectAttempts s \<le> m"
  shows "reconnectAttempts (session_run s es) = min (reconnectAttempts s + count_list es WsClose) m
       \<and> timers (session_run s es) =
           timers s @ map (\<lambda>k. 2000 * k)
             [Suc (reconnectAttempts s) ..< Suc (min (reconnectAttempts s + count_list es WsClose) m)]"
  using assms
proof (induction es arbitrary: s)
  case Nil
  then show ?case by (simp add: session_run_def)
next
  case (Cons e es)
  have no: "WsOpen \<notin> set es" using Cons.prems by simp
  show ?case
  proof (cases e)
    case WsOpen
    with Cons.prems show ?thesis by simp
  next
    case ReconnectTimer
    have run: "session_run s (e # es) = session_run (connectToServer s) es"
      by (simp add: session_run_def ReconnectTimer)
    have st: "reconnectAttempts (connectToServer s) = reconnectAttempts s"
      "timers (connectToServer s) = timers s"
      "maxReconnectAttempts (connectToServer s) = m"
      using Cons.prems by (simp_all add: connectToServer_def)
    from Cons.IH [of "connectToServer s", OF no st(3)] Cons.prems(3)
    show ?thesis unfolding run st using ReconnectTimer by simp
  next
    case WsClose
    have run: "session_run s (e # es) = session_run (ws_onclose s) es"
      by (simp add: session_run_def WsClose)
    have cnt: "count_list (e # es) WsClose = Suc (count_list es WsClose)"
      using WsClose by simp
    show ?thesis
    proof (cases "reconnectAttempts s < m")
      case True
      then have st: "reconnectAttempts (ws_onclose s) = Suc (reconnectAttempts s)"
        "timers (ws_onclose s) = timers s @ [2000 * Suc (reconnectAttempts s)]"
        "maxReconnectAttempts (ws_onclose s) = m"
        using Cons.prems by (simp_all add: ws_onclose_def attemptReconnect_below)
      have le: "reconnectAttempts (ws_onclose s) \<le> m" using st(1) True by simp
      from Cons.IH [OF no st(3) le]
      show ?thesis
        unfolding run cnt st upt_attempts_step [OF True] by simp
    next
      case False
      with Cons.prems have full: "reconnectAttempts s = m" by simp
      then have st: "reconnectAttempts (ws_onclose s) = reconnectAttempts s"
        "timers (ws_onclose s) = timers s"
        "maxReconnectAttempts (ws_onclose s) = m"
        using Cons.prems by (simp_all add: ws_onclose_def attemptReconnect_exhausted)
      have le: "reconnectAttempts (ws_onclose s) \<le> m" using st(1) full by simp
      from Cons.IH [OF no st(3) le]
      show ?thesis
        unfolding run cnt st using full by simp
    qed
  qed
qed

text \<open>
  Claim C8. A close below the maximum increments the attempt counter and schedules
  \<open>connectToServer\<close> after \<open>2000\<close> times the new attempt number; a close at the maximum
  schedules nothing. So from a fresh counter and with a maximum of 5, any run of closes and
  timer firings without a successful open schedules the delays \<open>2000 * 1, ..., 2000 * n\<close> for
  \<open>n\<close> closes, and never more than five of them: the sixth close adds no timer. A successful
  open resets the counter to 0.
\<close>

theorem reconnect_linear_backoff_bounded:
  assumes "maxReconnectAttempts s = 5" and "reconnectAttempts s = 0" and "WsOpen \<notin> set es"
  shows "timers (session_run s es) =
           timers s @ map (\<lambda>k. 2000 * k) [1 ..< Suc (min (count_list es WsClose) 5)]
       \<and> reconnectAttempts (session_run s es) = min (count_list es WsClose) 5
       \<and> (reconnectAttempts t < maxReconnectAttempts t \<longrightarrow>
            reconnectAttempts (ws_onclose t) = reconnectAttempts t + 1 \<and>
            timers (ws_onclose t) = timers t @ [2000 * (reconnectAttempts t + 1)])
       \<and> (reconnectAttempts t = maxReconnectAttempts t \<longrightarrow>
            timers (ws_onclose t) = timers t \<and> reconnectAttempts (ws_onclose t) = reconnectAttempts t)
       \<and> reconnectAttempts (ws_onopen t) = 0"
proof -
  have a: "timers (session_run s es) =
           timers s @ map (\<lambda>k. 2000 * k) [1 ..< Suc (min (count_list es WsClose) 5)]"
    and b: "reconnectAttempts (session_run s es) = min (count_list es WsClose) 5"
    using session_run_without_open [of es s 5] assms by simp_all
  have c: "reconnectAttempts t < maxReconnectAttempts t \<longrightarrow>
            reconnectAttempts (ws_onclose t) = reconnectAttempts t + 1 \<and>
            timers (ws_onclose t) = timers t @ [2000 * (reconnectAttempts t + 1)]"
    by (simp add: ws_onclose_def attemptReconnect_def Let_def)
  have d: "reconnectAttempts t = maxReconnectAttempts t \<longrightarrow>
            timers (ws_onclose t) = timers t \<and> reconnectAttempts (ws_onclose t) = reconnectAttempts t"
    by (simp add: ws_onclose_def attemptReconnect_def Let_def)
  have e: "reconnectAttempts (ws_onopen t) = 0"
    by (simp add: ws_onopen_def joinGame_def sendMessage_def)
  from a b c d e show ?thesis by blast
qed

text \<open>
  The theorem on the client after \<open>init\<close>, at seven closes in a row (the first five followed
  by their timer): five timers, with delays 2000 to 10000.
\<close>

theorem reconnect_linear_backoff_bounded_witness:
  "maxReconnectAttempts (init (constructor 800 600)) = 5
   \<and> reconnectAttempts (init (constructor 800 600)) = 0
   \<and> WsOpen \<notin> set [WsClose, ReconnectTimer, WsClose, ReconnectTimer, WsClose, ReconnectTimer,
                      WsClose, ReconnectTimer, WsClose, ReconnectTimer, WsClose, WsClose]
   \<and> timers (session_run (init (constructor 800 600))
        [WsClose, ReconnectTimer, WsClose, ReconnectTimer, WsClose, ReconnectTimer,
         WsClose, ReconnectTimer, WsClose, ReconnectTimer, WsClose, WsClose])
       = [2000, 4000, 6000, 8000, 10000]
   \<and> reconnectAttempts (ws_onclose (init (constructor 800 600))) = 1
   \<and> reconnectAttempts (ws_onopen (ws_onclose (init (constructor 800 600)))) = 0"
  using reconnect_linear_backoff_bounded
    [of "init (constructor 800 600)"
        "[WsClose, ReconnectTimer, WsClose, ReconnectTimer, WsClose, ReconnectTimer,
          WsClose, ReconnectTimer, WsClose, ReconnectTimer, WsClose, WsClose]"
        "init (constructor 800 600)"]
    reconnect_linear_backoff_bounded
    [of "init (constructor 800 600)" "[]" "ws_onclose (init (constructor 800 600))"]
  by (simp add: init_def loadWorldMap_def connectToServer_def constructor_def upt_rec)

section \<open>Movement\<close>

lemma getDirectionFromKey_Some:
  "getDirectionFromKey k = Some d \<Longrightarrow> k \<in> set movementKeys \<and> d \<noteq> []"
  by (auto simp: getDirectionFromKey_def keyMap_def movementKeys_def split: if_splits)

lemma movementLoop_held:
  assumes "keysPressed s = k # ks"
  shows "keysPressed (movementLoop s) = k # ks"
    and "movementLoopId (movementLoop s)"
    and "ws (movementLoop s) = ws s"
  using assms
  by (auto simp: movementLoop_def Let_def sendMoveCommand_def sendMessage_def split: option.splits)

lemma movementLoop_currentDirection:
  assumes "keysPressed s = k # ks"
  shows "currentDirection (movementLoop s) =
           (case getDirectionFromKey k of None \<Rightarrow> currentDirection s | Some d \<Rightarrow> Some d)"
  using assms getDirectionFromKey_Some [of k]
  by (auto simp: movementLoop_def Let_def sendMoveCommand_def sendMessage_def split: option.splits)


lemma frames_held:
  assumes "keysPressed s = k # ks" and "movementLoopId s"
  shows "keysPressed (frames n s) = k # ks \<and> movementLoopId (frames n s) \<and> ws (frames n s) = ws s"
  using assms
proof (induction n arbitrary: s)
  case 0
  then show ?case by simp
next
  case (Suc n)
  have f: "frame s = movementLoop s" using Suc.prems by (simp add: frame_def)
  show ?case
    using Suc.IH [of "movementLoop s"] movementLoop_held [OF Suc.prems(1)]
    by (simp add: f)
qed

lemma frames_currentDirection:
  assumes "keysPressed s = k # ks" and "movementLoopId s"
  shows "currentDirection (frames n s) =
           (if n = 0 then currentDirection s
            else case getDirectionFromKey k of None \<Rightarrow> currentDirection s | Some d \<Rightarrow> Some d)"
  using assms
proof (induction n arbitrary: s)
  case 0
  then show ?case by simp
next
  case (Suc n)
  have f: "frame s = movementLoop s" using Suc.prems by (simp add: frame_def)
  show ?case
    using Suc.IH [of "movementLoop s"] movementLoop_held [OF Suc.prems(1)]
      movementLoop_currentDirection [OF Suc.prems(1)]
    by (simp add: f split: option.splits)
qed


lemma last_direction_snoc:
  "last_direction cur (ms @ [m]) =
     (case m of Move d \<Rightarrow> Some d | Stop \<Rightarrow> None | JoinGame u \<Rightarrow> last_direction cur ms)"
  by (induction cur ms rule: last_direction.induct) (auto split: message.splits)

lemma edge_triggered_snoc:
  "edge_triggered cur (ms @ [m]) =
     (edge_triggered cur ms \<and> (case m of Move d \<Rightarrow> last_direction cur ms \<noteq> Some d | _ \<Rightarrow> True))"
  by (induction cur ms rule: edge_triggered.induct) (auto split: message.splits)

lemma sent_consistent_stopMovement: "sent_consistent s \<Longrightarrow> sent_consistent (stopMovement s)"
  by (simp add: sent_consistent_def stopMovement_def sendStopCommand_def sendMessage_def Let_def
      last_direction_snoc edge_triggered_snoc)

lemma sent_consistent_keydown: "sent_consistent s \<Longrightarrow> sent_consistent (keydown s k)"
  by (simp add: sent_consistent_def keydown_def startMovement_def)

lemma sent_consistent_keysPressed:
  "sent_consistent (s\<lparr>keysPressed := ks\<rparr>) = sent_consistent s"
  by (simp add: sent_consistent_def)

lemma sent_consistent_keyup: "sent_consistent s \<Longrightarrow> sent_consistent (keyup s k)"
  by (simp add: keyup_def Let_def sent_consistent_stopMovement sent_consistent_keysPressed)

lemma sent_consistent_movementLoop: "sent_consistent s \<Longrightarrow> sent_consistent (movementLoop s)"
proof (cases "keysPressed s")
  case Nil
  assume "sent_consistent s"
  then show ?thesis using Nil by (simp add: movementLoop_def sent_consistent_stopMovement)
next
  case (Cons k ks)
  assume inv: "sent_consistent s"
  show ?thesis
  proof (cases "getDirectionFromKey k")
    case None
    with inv Cons show ?thesis by (simp add: movementLoop_def sent_consistent_def)
  next
    case (Some d)
    with inv Cons show ?thesis
      by (auto simp add: movementLoop_def sent_consistent_def Let_def sendMoveCommand_def
          sendMessage_def last_direction_snoc edge_triggered_snoc)
  qed
qed

lemma sent_consistent_step: "sent_consistent s \<Longrightarrow> sent_consistent (input_step s e)"
  by (cases e) (simp_all add: sent_consistent_keydown sent_consistent_keyup frame_def
      sent_consistent_movementLoop)

lemma sent_consistent_run: "sent_consistent s \<Longrightarrow> sent_consistent (input_run s es)"
  unfolding input_run_def
  by (induction es arbitrary: s) (simp_all add: sent_consistent_step)

lemma sent_consistent_connected: "sent_consistent (ws_onopen (init (constructor w h)))"
  by (simp add: sent_consistent_def ws_onopen_def init_def loadWorldMap_def connectToServer_def
      constructor_def joinGame_def sendMessage_def)

text \<open>
  On the connected client, whatever keys are pressed and released and whenever frames run,
  no \<open>move\<close> intent in the log repeats the direction announced last before it.
\<close>

lemma moves_edge_triggered:
  "edge_triggered None (sent (input_run (ws_onopen (init (constructor w h))) es))"
  using sent_consistent_run [OF sent_consistent_connected, of w h es]
  by (simp add: sent_consistent_def)








lemma keydown_first:
  assumes "keysPressed s = []" and "k \<in> set movementKeys"
  shows "keysPressed (keydown s k) = [k] \<and> movementLoopId (keydown s k)"
  using assms by (simp add: keydown_def startMovement_def)

lemma keydown_second:
  assumes "keysPressed s = [k1]" and "movementLoopId s" and "k2 \<in> set movementKeys" and "k1 \<noteq> k2"
  shows "keysPressed (keydown s k2) = [k1, k2] \<and> movementLoopId (keydown s k2)"
  using assms by (simp add: keydown_def startMovement_def)

lemma keyup_one_of_two:
  assumes "keysPressed s = [k1, k2]" and "movementLoopId s" and "k \<in> set movementKeys"
    and "k1 \<noteq> k2"
  shows "k = k1 \<Longrightarrow> keysPressed (keyup s k) = [k2] \<and> movementLoopId (keyup s k)"
    and "k = k2 \<Longrightarrow> keysPressed (keyup s k) = [k1] \<and> movementLoopId (keyup s k)"
  using assms by (auto simp add: keyup_def Let_def)

text \<open>
  Press-order priority for keys that have a direction. Starting with no key held, press
  \<open>k1\<close>, then \<open>k2\<close>, with any number of frames in between. While both are held the current
  direction is that of \<open>k1\<close>, the key pressed first; it remains so after \<open>k2\<close> is released;
  and after \<open>k1\<close> is released instead, it becomes that of \<open>k2\<close>.
\<close>

lemma press_order_priority_mapped_keys:
  assumes "keysPressed s = []"
    and "getDirectionFromKey k1 = Some d1" and "getDirectionFromKey k2 = Some d2" and "k1 \<noteq> k2"
  shows "currentDirection (frames (Suc n2) (keydown (frames n1 (keydown s k1)) k2)) = Some d1
       \<and> currentDirection
           (frames (Suc n3) (keyup (frames n2 (keydown (frames n1 (keydown s k1)) k2)) k1)) = Some d2
       \<and> currentDirection
           (frames n3 (keyup (frames (Suc n2) (keydown (frames n1 (keydown s k1)) k2)) k2)) = Some d1"
proof -
  have m1: "k1 \<in> set movementKeys" and m2: "k2 \<in> set movementKeys"
    using assms(2,3) getDirectionFromKey_Some by blast+
  let ?a = "frames n1 (keydown s k1)"
  have a: "keysPressed ?a = [k1] \<and> movementLoopId ?a"
    using keydown_first [OF assms(1) m1] frames_held [of "keydown s k1" k1 "[]" n1] by simp
  let ?d = "keydown ?a k2"
  have d: "keysPressed ?d = [k1, k2] \<and> movementLoopId ?d"
    using keydown_second [of ?a k1 k2] a m2 assms(4) by simp
  have both: "currentDirection (frames (Suc n2) ?d) = Some d1"
    using frames_currentDirection [of ?d k1 "[k2]" "Suc n2"] d assms(2) by simp
  have held: "keysPressed (frames n ?d) = [k1, k2] \<and> movementLoopId (frames n ?d)" for n
    using frames_held [of ?d k1 "[k2]" n] d by simp
  have u1: "keysPressed (keyup (frames n2 ?d) k1) = [k2] \<and> movementLoopId (keyup (frames n2 ?d) k1)"
    using keyup_one_of_two(1) [of "frames n2 ?d" k1 k2 k1] held [of n2] m1 assms(4) by simp
  have r1: "currentDirection (frames (Suc n3) (keyup (frames n2 ?d) k1)) = Some d2"
    using frames_currentDirection [of "keyup (frames n2 ?d) k1" k2 "[]" "Suc n3"] u1 assms(3) by simp
  let ?u = "keyup (frames (Suc n2) ?d) k2"
  have u2: "keysPressed ?u = [k1] \<and> movementLoopId ?u"
    using keyup_one_of_two(2) [of "frames (Suc n2) ?d" k1 k2 k2] held [of "Suc n2"] m2 assms(4)
    by simp
  have cu: "currentDirection ?u = Some d1"
    using both held [of "Suc n2"] m2 assms(4) by (simp add: keyup_def Let_def)
  have r2: "currentDirection (frames n3 ?u) = Some d1"
    using frames_currentDirection [of ?u k1 "[]" n3] u2 assms(2) cu by simp
  from both r1 r2 show ?thesis by simp
qed

text \<open>
  Claim C6 says that the active direction is always derived from the first-inserted key still
  held. The priority holds for the keys \<open>keyMap\<close> knows (the lemma above, with \<open>ArrowLeft\<close> and
  \<open>ArrowRight\<close> among them), but not when the key in front is an uppercase letter: press
  \<open>ArrowLeft\<close>, then \<open>W\<close>, release \<open>ArrowLeft\<close>. \<open>W\<close> is now the only key held, yet the current
  direction stays \<open>left\<close>, the direction of the released key, and nothing is sent; with \<open>w\<close>
  the direction becomes \<open>up\<close>. The missing entries of \<open>keyMap\<close> are those of claim C3.
\<close>

theorem uppercase_key_keeps_stale_direction:
  "keysPressed (frame (keyup (keydown (frame (keydown (ws_onopen (init (constructor 800 600)))
       ''ArrowLeft'')) ''W'') ''ArrowLeft'')) = [''W'']
   \<and> currentDirection (frame (keyup (keydown (frame (keydown (ws_onopen (init (constructor 800 600)))
       ''ArrowLeft'')) ''W'') ''ArrowLeft'')) = Some ''left''
   \<and> sent (frame (keyup (keydown (frame (keydown (ws_onopen (init (constructor 800 600)))
       ''ArrowLeft'')) ''W'') ''ArrowLeft'')) = [JoinGame ''Tim'', Move ''left'']
   \<and> currentDirection (frame (keyup (keydown (frame (keydown (ws_onopen (init (constructor 800 600)))
       ''ArrowLeft'')) ''w'') ''ArrowLeft'')) = Some ''up''"
  by (simp add: frame_def movementLoop_def keydown_def keyup_def movementKeys_def
      startMovement_def ws_onopen_def init_def loadWorldMap_def connectToServer_def
      constructor_def joinGame_def sendMessage_def sendMoveCommand_def getDirectionFromKey_def
      keyMap_def Let_def)

text \<open>
  Claim C3 says that every recognised movement key, the uppercase letters included, is mapped
  to a direction and a \<open>move\<close> intent is sent. \<open>keydown\<close> accepts \<open>W\<close> (it is in
  \<open>movementKeys\<close>) and holds it, but \<open>keyMap\<close> has no entry for it: on the connected client,
  pressing \<open>W\<close> and running a frame sends nothing and leaves no current direction, where
  pressing \<open>w\<close> sends \<open>move up\<close>.
\<close>

theorem uppercase_key_sends_no_move:
  "''W'' \<in> set movementKeys
   \<and> getDirectionFromKey ''W'' = None
   \<and> keysPressed (frame (keydown (ws_onopen (init (constructor 800 600))) ''W'')) = [''W'']
   \<and> sent (frame (keydown (ws_onopen (init (constructor 800 600))) ''W'')) = [JoinGame ''Tim'']
   \<and> currentDirection (frame (keydown (ws_onopen (init (constructor 800 600))) ''W'')) = None
   \<and> sent (frame (keydown (ws_onopen (init (constructor 800 600))) ''w''))
       = [JoinGame ''Tim'', Move ''up'']"
  by (simp add: getDirectionFromKey_def keyMap_def frame_def keydown_def movementKeys_def
      startMovement_def movementLoop_def ws_onopen_def init_def loadWorldMap_def
      connectToServer_def constructor_def joinGame_def sendMessage_def sendMoveCommand_def Let_def)

end
